theory Spec2Isabelle
  imports Main
begin

section \<open>Data model\<close>

text \<open>
  A \<^verbatim>\<open>std::string\<close> is a sequence of bytes: \<^typ>\<open>string\<close>, a list of \<^typ>\<open>char\<close>.
  A \<^verbatim>\<open>size_t\<close> is a natural number below \<open>2 ^ 64\<close>; the only place where a value is
  reduced modulo \<open>2 ^ 64\<close> is the conversion of a negative argument in \<open>stoull\<close>,
  where the wrap-around is written out.
\<close>

subsection \<open>The reference codec\<close>

text \<open>
  Both programs call the Snappy library (\<^verbatim>\<open>../snappy-cpp/snappy.h\<close>), which lies outside the
  repository. Its four entry points are a parameter of the model:
  \<^item> \<^verbatim>\<open>snappy::Compress(input, n, &compressed)\<close> fills \<open>compressed\<close>;
  \<^item> \<^verbatim>\<open>snappy::IsValidCompressedBuffer(data, n)\<close> returns a bool;
  \<^item> \<^verbatim>\<open>snappy::GetUncompressedLength(data, n, &result)\<close> returns a bool and, when true,
    the length in \<open>result\<close>: \<open>None\<close> is the return value false;
  \<^item> \<^verbatim>\<open>snappy::Uncompress(data, n, &out)\<close> returns a bool and, when true, the
    decompressed bytes in \<open>out\<close>: \<open>None\<close> is the return value false.
\<close>

record codec =
  Compress :: "string \<Rightarrow> string"
  IsValidCompressedBuffer :: "string \<Rightarrow> bool"
  GetUncompressedLength :: "string \<Rightarrow> nat option"
  Uncompress :: "string \<Rightarrow> string option"

subsection \<open>Files\<close>

text \<open>
  The file system as the two programs see it: \<open>files\<close> maps a path to the bytes an
  \<^verbatim>\<open>std::ifstream\<close> reads from it (\<open>None\<close>: the stream cannot be opened), and
  \<open>writable\<close> tells whether an \<^verbatim>\<open>std::ofstream\<close> on the path can be opened and written.
\<close>

record filesystem =
  files :: "string \<Rightarrow> string option"
  writable :: "string \<Rightarrow> bool"

subsection \<open>Observable behaviour\<close>

text \<open>
  A run is observed as the list of its events, in program order, and the way it ends.
  One event is one output statement (a line ended by \<^verbatim>\<open>std::endl\<close>) or one call of the
  codec. The two statements that print a \<^verbatim>\<open>double\<close> quotient are events of their own,
  \<open>Cout_ratio p a b s\<close>: the line \<open>p\<close>, the value of \<^verbatim>\<open>(double)a / b\<close>, \<open>s\<close>. The division
  is floating point: it is performed for every \<open>b\<close>, also for 0.
\<close>

datatype event =
    Cout string
  | Cerr string
  | Cout_ratio string nat nat string
  | Call_Compress string
  | Call_IsValidCompressedBuffer string
  | Call_GetUncompressedLength string
  | Call_Uncompress string

datatype exn = Invalid_argument | Out_of_range

text \<open>
  \<open>Exit n\<close> is \<^verbatim>\<open>return n\<close> from \<^verbatim>\<open>main\<close>. \<open>Uncaught e\<close> is an exception that leaves
  \<^verbatim>\<open>main\<close>: neither program has a handler, so \<^verbatim>\<open>std::terminate\<close> ends the process
  abnormally.
\<close>

datatype outcome = Exit nat | Uncaught exn

section \<open>Library functions the programs call\<close>

subsection \<open>Decimal output\<close>

text \<open>\<^verbatim>\<open>operator<<\<close> on a \<^verbatim>\<open>size_t\<close> and \<^verbatim>\<open>std::to_string\<close> on a non-negative \<^verbatim>\<open>int\<close>.\<close>

fun to_string :: "nat \<Rightarrow> string" where
  "to_string n =
     (if n < 10 then [char_of (48 + n)]
      else to_string (n div 10) @ [char_of (48 + n mod 10)])"

declare to_string.simps [simp del]

subsection \<open>\<^verbatim>\<open>std::stoull\<close>\<close>

text \<open>
  \<^verbatim>\<open>std::stoull(str)\<close> with its default arguments (no index pointer, base 10) calls
  \<^verbatim>\<open>strtoull\<close>: leading white space is skipped, one sign is accepted, the longest run of
  decimal digits is converted and whatever follows it is ignored. With no digit it throws
  \<^verbatim>\<open>std::invalid_argument\<close>; with a magnitude above \<open>2 ^ 64 - 1\<close> it throws
  \<^verbatim>\<open>std::out_of_range\<close>; after a minus sign the magnitude is negated in the unsigned
  type.
\<close>

definition isspace :: "char \<Rightarrow> bool" where
  "isspace c = (of_char c = (32::nat) \<or> (9::nat) \<le> of_char c \<and> of_char c \<le> (13::nat))"

definition isdigit :: "char \<Rightarrow> bool" where
  "isdigit c = ((48::nat) \<le> of_char c \<and> of_char c \<le> (57::nat))"

definition digits_value :: "string \<Rightarrow> nat" where
  "digits_value ds = foldl (\<lambda>a c. 10 * a + (of_char c - 48)) 0 ds"

definition stoull :: "string \<Rightarrow> exn + nat" where
  "stoull str =
     (let s1 = dropWhile isspace str;
          neg = (s1 \<noteq> [] \<and> hd s1 = CHR ''-'');
          s2 = (if s1 \<noteq> [] \<and> (hd s1 = CHR ''-'' \<or> hd s1 = CHR ''+'') then tl s1 else s1);
          ds = takeWhile isdigit s2
      in if ds = [] then Inl Invalid_argument
         else if 2 ^ 64 \<le> digits_value ds then Inl Out_of_range
         else Inr (if neg then (2 ^ 64 - digits_value ds) mod 2 ^ 64 else digits_value ds))"

section \<open>The validator (\<^verbatim>\<open>validate_snappy.cpp\<close>)\<close>

text \<open>
  \<^verbatim>\<open>main(argc, argv)\<close>: \<open>prog\<close> is \<^verbatim>\<open>argv[0]\<close> and \<open>args\<close> are \<^verbatim>\<open>argv[1]\<close> to
  \<^verbatim>\<open>argv[argc - 1]\<close>, so \<^verbatim>\<open>argc != 3\<close> is \<open>length args \<noteq> 2\<close>. The check mark and the
  final emoji of the source's messages are written as their UTF-8 bytes.
\<close>

definition check_mark :: string where
  "check_mark = [char_of (0xE2::nat), char_of (0x9C::nat), char_of (0x93::nat)]"

definition check_box :: string where
  "check_box = [char_of (0xE2::nat), char_of (0x9C::nat), char_of (0x85::nat)]"

text \<open>The last line of a successful run; it starts with the newline of the source's literal.\<close>

definition success_line :: string where
  "success_line =
     [char_of (10::nat)] @ check_box @ '' ALL CHECKS PASSED - Swift-compressed data is valid!''"

definition validate_main :: "codec \<Rightarrow> filesystem \<Rightarrow> string \<Rightarrow> string list \<Rightarrow> event list \<times> outcome" where
  "validate_main c fs prog args =
     (if length args \<noteq> 2 then
        ([Cerr (''Usage: '' @ prog @ '' <compressed_file> <expected_size>''),
          Cerr (''Example: '' @ prog @ '' test.snappy 100'')], Exit 1)
      else
        let filename = args ! 0 in
        case stoull (args ! 1) of
          Inl e \<Rightarrow> ([], Uncaught e)
        | Inr expectedSize \<Rightarrow>
        (case files fs filename of
          None \<Rightarrow> ([Cerr (''ERROR: Cannot open file: '' @ filename)], Exit 1)
        | Some compressed \<Rightarrow>
        let t1 = [Cout (''File: '' @ filename),
                  Cout (''Compressed size: '' @ to_string (length compressed) @ '' bytes''),
                  Call_IsValidCompressedBuffer compressed] in
        if \<not> IsValidCompressedBuffer c compressed then
          (t1 @ [Cerr ''ERROR: Invalid compressed data format''], Exit 1)
        else
        let t2 = t1 @ [Cout (check_mark @ '' Format validation passed''),
                       Call_GetUncompressedLength compressed] in
        (case GetUncompressedLength c compressed of
          None \<Rightarrow> (t2 @ [Cerr ''ERROR: Cannot get uncompressed length''], Exit 1)
        | Some uncompressedLength \<Rightarrow>
        let t3 = t2 @ [Cout (check_mark @ '' Uncompressed length: '' @
                             to_string uncompressedLength @ '' bytes'')] in
        if uncompressedLength \<noteq> expectedSize then
          (t3 @ [Cerr (''ERROR: Size mismatch! Expected '' @ to_string expectedSize @
                       '' but got '' @ to_string uncompressedLength)], Exit 1)
        else
        let t4 = t3 @ [Cout (check_mark @ '' Size matches expected: '' @
                             to_string expectedSize @ '' bytes''),
                       Call_Uncompress compressed] in
        (case Uncompress c compressed of
          None \<Rightarrow> (t4 @ [Cerr ''ERROR: Decompression failed''], Exit 1)
        | Some decompressed \<Rightarrow>
        let t5 = t4 @ [Cout (check_mark @ '' Decompression successful'')] in
        if length decompressed \<noteq> expectedSize then
          (t5 @ [Cerr (''ERROR: Decompressed size mismatch! Expected '' @
                       to_string expectedSize @ '' but got '' @
                       to_string (length decompressed))], Exit 1)
        else
          (t5 @ [Cout_ratio (check_mark @ '' Compression ratio: '')
                            (length decompressed) (length compressed) ''x'',
                 Cout success_line],
           Exit 0)))))"

section \<open>The generator (\<^verbatim>\<open>generate_test_data.cpp\<close>)\<close>

subsection \<open>Writing one case\<close>

text \<open>
  \<^verbatim>\<open>std::ofstream file(filename, std::ios::binary); file.write(...); file.close();\<close>
  The stream's state is never tested and no exception mask is set: when the file cannot
  be opened the stream is in its failed state, \<^verbatim>\<open>write\<close> and \<^verbatim>\<open>close\<close> do
  nothing, and the program goes on.
\<close>

definition write_file :: "filesystem \<Rightarrow> string \<Rightarrow> string \<Rightarrow> filesystem" where
  "write_file fs path bytes =
     (if writable fs path then fs\<lparr>files := (files fs)(path := Some bytes)\<rparr> else fs)"

definition fixture_path :: "string \<Rightarrow> string" where
  "fixture_path name = ''Tests/SnappySwiftTests/TestData/'' @ name @ ''.snappy''"

definition writeTestCase :: "codec \<Rightarrow> string \<Rightarrow> string \<Rightarrow> filesystem \<Rightarrow> filesystem \<times> event list" where
  "writeTestCase c name input fs =
     (let compressed = Compress c input;
          filename = fixture_path name;
          fs' = write_file fs filename compressed
      in (fs',
          [Call_Compress input,
           Cout (name @ '':''),
           Cout (''  Input size: '' @ to_string (length input) @ '' bytes''),
           Cout (''  Compressed size: '' @ to_string (length compressed) @ '' bytes''),
           Cout_ratio ''  Ratio: '' (length input) (length compressed) ''x'',
           Cout (''  Saved to: '' @ filename),
           Cout []]))"

subsection \<open>The inputs built by \<^verbatim>\<open>main\<close>\<close>

text \<open>
  A \<^verbatim>\<open>for (int i = a; i < b; i++)\<close> loop that appends to a string is a \<open>fold\<close> over
  \<open>[a..<b]\<close>. \<^verbatim>\<open>std::string(n, ch)\<close> is \<open>replicate n ch\<close>, and \<^verbatim>\<open>s.resize(n)\<close> cuts
  \<open>s\<close> to \<open>n\<close> bytes or pads it with zero bytes.
\<close>

definition resize :: "nat \<Rightarrow> string \<Rightarrow> string" where
  "resize n s = take n s @ replicate (n - length s) (char_of (0::nat))"

definition pattern :: string where
  "pattern = fold (\<lambda>i s. s @ ''abcdefgh'') [0..<20] []"

definition longer :: string where
  "longer =
     ''The quick brown fox jumps over the lazy dog. '' @
     ''The quick brown fox jumps over the lazy dog. '' @
     ''The quick brown fox jumps over the lazy dog. '' @
     ''The quick brown fox jumps over the lazy dog.''"

definition ascii :: string where
  "ascii = fold (\<lambda>i s. s @ [char_of i]) [32..<127] []"

definition large :: string where
  "large = replicate 10000 CHR ''x''"

definition mixed :: string where
  "mixed = ''AAAAAAAbbbbbCCCCCdddEEFF1234567890''"

definition numbers :: string where
  "numbers = fold (\<lambda>i s. s @ (to_string i @ '' '')) [0..<100] []"

definition chunk :: string where
  "chunk = ''The quick brown fox jumps over the lazy dog. ''"

text \<open>\<^verbatim>\<open>while (large100k.size() < 100000) { large100k += chunk; }\<close>\<close>

function append_chunks :: "string \<Rightarrow> string" where
  "append_chunks s = (if length s < 100000 then append_chunks (s @ chunk) else s)"
  by pat_completeness auto
termination
  by (relation "measure (\<lambda>s. 100000 - length s)") (auto simp: chunk_def)

declare append_chunks.simps [simp del]

definition large100k :: string where
  "large100k = resize 100000 (append_chunks [])"

definition large1mb :: string where
  "large1mb =
     resize 1048576
       (fold (\<lambda>i s.
          let s1 = s @ (''Line '' @ to_string i @
                        '': Lorem ipsum dolor sit amet, consectetur adipiscing elit. '')
          in if i mod 10 = 0 then s1 @ replicate 50 (char_of (65 + i mod 26)) else s1)
        [0..<10000] [])"

definition large10mb :: string where
  "large10mb = fold (\<lambda>i s. s @ replicate 100 CHR ''X'') [0..<10485760 div 100] []"

subsection \<open>\<^verbatim>\<open>main\<close>\<close>

text \<open>
  \<^verbatim>\<open>main\<close> is a straight line of thirteen calls of \<open>writeTestCase\<close>, each on the file
  system the call before it left; a line is printed before the thirteenth. The
  cases are listed in the order of the calls.
\<close>

definition first_cases :: "(string \<times> string) list" where
  "first_cases =
     [(''empty'', []),
      (''single_byte'', ''A''),
      (''hello'', ''Hello, World!''),
      (''repeated'', replicate 100 CHR ''a''),
      (''pattern'', pattern),
      (''longer_text'', longer),
      (''ascii'', ascii),
      (''large'', large),
      (''mixed'', mixed),
      (''numbers'', numbers),
      (''large_100kb'', large100k),
      (''large_1mb'', large1mb)]"

definition test_cases :: "(string \<times> string) list" where
  "test_cases = first_cases @ [(''large_10mb'', large10mb)]"

fun writeTestCases :: "codec \<Rightarrow> (string \<times> string) list \<Rightarrow> filesystem \<Rightarrow> filesystem \<times> event list" where
  "writeTestCases c [] fs = (fs, [])"
| "writeTestCases c ((name, input) # rest) fs =
     (let (fs1, ev1) = writeTestCase c name input fs;
          (fs2, ev2) = writeTestCases c rest fs1
      in (fs2, ev1 @ ev2))"

definition generate_main :: "codec \<Rightarrow> filesystem \<Rightarrow> filesystem \<times> event list \<times> outcome" where
  "generate_main c fs =
     (let (fs1, ev1) = writeTestCases c first_cases fs;
          (fs2, ev2) = writeTestCase c ''large_10mb'' large10mb fs1
      in (fs2,
          [Cout ''Generating Snappy test data...'', Cout []] @ ev1 @
          [Cout ''Generating 10MB file (this may take a moment)...''] @ ev2 @
          [Cout ''Test data generation complete!''],
          Exit 0))"

section \<open>Observations on a run\<close>

text \<open>A run invokes decompression when its events hold a call of \<^verbatim>\<open>snappy::Uncompress\<close>.\<close>

fun is_Call_Uncompress :: "event \<Rightarrow> bool" where
  "is_Call_Uncompress (Call_Uncompress _) = True"
| "is_Call_Uncompress _ = False"

text \<open>A quotient is printed and its divisor is zero.\<close>

fun divides_by_zero :: "event \<Rightarrow> bool" where
  "divides_by_zero (Cout_ratio _ _ b _) = (b = 0)"
| "divides_by_zero _ = False"

text \<open>The error of the validator's last comparison, whatever the two sizes it prints.\<close>

fun is_final_size_error :: "event \<Rightarrow> bool" where
  "is_final_size_error (Cerr m) = (take 34 m = ''ERROR: Decompressed size mismatch!'')"
| "is_final_size_error _ = False"

section \<open>Stand-in codecs and file systems\<close>

text \<open>
  The theorems below hold for every codec and every file system. To instantiate them at
  concrete inputs, two small codecs stand in for the library: \<open>stored_codec\<close> frames the
  input with one length byte (sound for inputs shorter than 256 bytes) and, like a codec
  with a length header, never produces an empty stream; \<open>raw_codec\<close> has no framing at
  all, so the empty input compresses to the empty stream.
\<close>

definition stored_codec :: codec where
  "stored_codec =
     \<lparr> Compress = (\<lambda>s. char_of (length s) # s),
       IsValidCompressedBuffer = (\<lambda>bs. bs \<noteq> [] \<and> of_char (hd bs) = length (tl bs)),
       GetUncompressedLength = (\<lambda>bs. if bs = [] then None else Some (of_char (hd bs))),
       Uncompress = (\<lambda>bs. if bs \<noteq> [] \<and> of_char (hd bs) = length (tl bs)
                           then Some (tl bs) else None) \<rparr>"

definition raw_codec :: codec where
  "raw_codec =
     \<lparr> Compress = (\<lambda>s. s),
       IsValidCompressedBuffer = (\<lambda>bs. True),
       GetUncompressedLength = (\<lambda>bs. Some (length bs)),
       Uncompress = (\<lambda>bs. Some bs) \<rparr>"

text \<open>A file system holding one readable file, and one where nothing can be written.\<close>

definition one_file :: "string \<Rightarrow> string \<Rightarrow> filesystem" where
  "one_file path bytes =
     \<lparr> files = (\<lambda>p. if p = path then Some bytes else None), writable = (\<lambda>p. True) \<rparr>"

definition read_only :: filesystem where
  "read_only = \<lparr> files = (\<lambda>p. None), writable = (\<lambda>p. False) \<rparr>"

section \<open>Library facts\<close>

subsection \<open>Decimal output is faithful\<close>

lemma digits_value_snoc: "digits_value (ds @ [c]) = 10 * digits_value ds + (of_char c - 48)"
  by (simp add: digits_value_def)

lemma of_char_digit: "d < 10 \<Longrightarrow> of_char (char_of (48 + d :: nat)) = 48 + d"
  by (simp add: of_char_of)

lemma digits_value_to_string: "digits_value (to_string n) = n"
proof (induction n rule: to_string.induct)
  case (1 n)
  show ?case
  proof (cases "n < 10")
    case True
    then show ?thesis
      by (subst to_string.simps) (simp add: digits_value_def of_char_digit)
  next
    case False
    have "digits_value (to_string n) =
            10 * digits_value (to_string (n div 10)) + (of_char (char_of (48 + n mod 10)) - 48)"
      using False by (subst to_string.simps) (simp add: digits_value_snoc)
    also have "\<dots> = 10 * (n div 10) + n mod 10"
      using "1.IH" [OF False] by (simp add: of_char_digit)
    finally show ?thesis by simp
  qed
qed

text \<open>Two sizes print alike only when they are equal: a printed size identifies the value.\<close>

lemma to_string_inj: "to_string m = to_string n \<Longrightarrow> m = n"
  by (metis digits_value_to_string)

lemma to_string_values:
  "to_string 0 = ''0''" "to_string 1 = ''1''" "to_string 13 = ''13''" "to_string 14 = ''14''"
  "to_string 99 = ''99''" "to_string 100 = ''100''" "to_string 101 = ''101''"
  by code_simp+

subsection \<open>\<open>stoull\<close> on some arguments\<close>

lemma stoull_3: "stoull ''3'' = Inr 3"
  by (simp add: stoull_def isspace_def isdigit_def digits_value_def)

lemma stoull_13: "stoull ''13'' = Inr 13"
  by (simp add: stoull_def isspace_def isdigit_def digits_value_def)

lemma stoull_99: "stoull ''99'' = Inr 99"
  by (simp add: stoull_def isspace_def isdigit_def digits_value_def)

lemma stoull_abc: "stoull ''abc'' = Inl Invalid_argument"
  by (simp add: stoull_def isspace_def isdigit_def digits_value_def)

text \<open>No number is converted from the empty string or behind a first byte that is neither
  white space, a sign nor a digit.\<close>

lemma stoull_empty: "stoull [] = Inl Invalid_argument"
  by (simp add: stoull_def)

lemma stoull_no_digit:
  assumes "\<not> isspace ch" "\<not> isdigit ch" "ch \<noteq> CHR ''-''" "ch \<noteq> CHR ''+''"
  shows "stoull (ch # rest) = Inl Invalid_argument"
  using assms by (simp add: stoull_def)

text \<open>What \<open>stoull\<close> converts is a \<^verbatim>\<open>size_t\<close>.\<close>

lemma stoull_range: "stoull s = Inr n \<Longrightarrow> n < 2 ^ 64"
  by (auto simp: stoull_def Let_def split: if_splits)

subsection \<open>The stand-in codecs\<close>

lemma stored_codec_lengths:
  assumes "GetUncompressedLength stored_codec bs = Some n"
    and "Uncompress stored_codec bs = Some out"
  shows "length out = n"
  using assms by (auto simp: stored_codec_def split: if_splits)

lemma stored_codec_hello:
  "Compress stored_codec ''Hello, World!'' = char_of (13::nat) # ''Hello, World!''"
  "IsValidCompressedBuffer stored_codec (char_of (13::nat) # ''Hello, World!'')"
  "GetUncompressedLength stored_codec (char_of (13::nat) # ''Hello, World!'') = Some 13"
  "Uncompress stored_codec (char_of (13::nat) # ''Hello, World!'') = Some ''Hello, World!''"
  by (simp_all add: stored_codec_def)

section \<open>The generator's events\<close>

lemma writeTestCase_events:
  "snd (writeTestCase c name input fs) =
     [Call_Compress input,
      Cout (name @ '':''),
      Cout (''  Input size: '' @ to_string (length input) @ '' bytes''),
      Cout (''  Compressed size: '' @ to_string (length (Compress c input)) @ '' bytes''),
      Cout_ratio ''  Ratio: '' (length input) (length (Compress c input)) ''x'',
      Cout (''  Saved to: '' @ fixture_path name),
      Cout []]"
  by (simp add: writeTestCase_def Let_def)

lemma writeTestCase_filesystem:
  "fst (writeTestCase c name input fs) = write_file fs (fixture_path name) (Compress c input)"
  by (simp add: writeTestCase_def Let_def)

lemma write_file_failed: "\<not> writable fs path \<Longrightarrow> write_file fs path bytes = fs"
  by (simp add: write_file_def)

text \<open>The events of a sequence of cases do not depend on the file system.\<close>

lemma writeTestCases_events:
  "snd (writeTestCases c cs fs) = snd (writeTestCases c cs fs')"
proof (induction cs arbitrary: fs fs')
  case Nil
  show ?case by simp
next
  case (Cons x cs)
  obtain name input where x: "x = (name, input)" by (cases x)
  have "snd (writeTestCases c (x # cs) fs) =
          snd (writeTestCase c name input fs) @
          snd (writeTestCases c cs (fst (writeTestCase c name input fs)))" for fs
    by (simp add: x split_beta)
  then show ?case
    using Cons.IH by (simp add: writeTestCase_events)
qed

lemma generate_main_events:
  "fst (snd (generate_main c fs)) =
     [Cout ''Generating Snappy test data...'', Cout []] @
     snd (writeTestCases c first_cases fs) @
     [Cout ''Generating 10MB file (this may take a moment)...''] @
     snd (writeTestCase c ''large_10mb'' large10mb fs) @
     [Cout ''Test data generation complete!'']"
  by (simp add: generate_main_def split_beta writeTestCase_events)

lemma generate_main_outcome: "snd (snd (generate_main c fs)) = Exit 0"
  by (simp add: generate_main_def split_beta)

section \<open>The inputs in closed form\<close>

lemma fold_append: "fold (\<lambda>i s. s @ f i) xs acc = acc @ concat (map f xs)"
  by (induction xs arbitrary: acc) simp_all

lemma ascii_map: "ascii = map char_of [32..<127]"
proof -
  have "concat (map (\<lambda>i. [char_of i :: char]) xs) = map char_of xs" for xs :: "nat list"
    by (induction xs) simp_all
  then show ?thesis
    by (simp add: ascii_def fold_append)
qed

lemma of_char_char_of_small: "n < 256 \<Longrightarrow> of_char (char_of n) = (n::nat)"
  by (simp add: of_char_of)

lemma distinct_ascii: "distinct ascii"
proof -
  have "inj_on (char_of :: nat \<Rightarrow> char) {32..<127}"
  proof (rule inj_onI)
    fix x y :: nat
    assume "x \<in> {32..<127}" "y \<in> {32..<127}" and eq: "(char_of x :: char) = char_of y"
    then have "x < 256" "y < 256" by simp_all
    then have "of_char (char_of x :: char) = x" "of_char (char_of y :: char) = y"
      by (simp_all add: of_char_char_of_small)
    with eq show "x = y" by simp
  qed
  then show ?thesis
    by (simp only: ascii_map distinct_map distinct_upt set_upt simp_thms)
qed

lemma set_ascii: "set ascii = {b. 32 \<le> (of_char b :: nat) \<and> (of_char b :: nat) \<le> 126}"
proof (rule set_eqI)
  fix b :: char
  have s: "set ascii = char_of ` {32..<127::nat}"
    by (simp only: ascii_map set_map set_upt)
  show "b \<in> set ascii \<longleftrightarrow> b \<in> {b. 32 \<le> (of_char b :: nat) \<and> (of_char b :: nat) \<le> 126}"
  proof
    assume "b \<in> set ascii"
    then obtain n :: nat where n: "32 \<le> n" "n < 127" and b: "b = char_of n"
      unfolding s by auto
    from n have "of_char (char_of n :: char) = n"
      by (simp add: of_char_char_of_small)
    with n b show "b \<in> {b. 32 \<le> (of_char b :: nat) \<and> (of_char b :: nat) \<le> 126}"
      by simp
  next
    assume "b \<in> {b. 32 \<le> (of_char b :: nat) \<and> (of_char b :: nat) \<le> 126}"
    then have "(of_char b :: nat) \<in> {32..<127}" by simp
    then have "char_of (of_char b :: nat) \<in> char_of ` {32..<127::nat}"
      by (rule imageI)
    then show "b \<in> set ascii"
      unfolding s by simp
  qed
qed

lemma length_chunk: "length chunk = 45"
  by (simp add: chunk_def)

text \<open>One more pass of the \<^verbatim>\<open>while\<close> loop is one more copy of the phrase.\<close>

lemma chunks_step:
  assumes "l < (100000::nat)"
  shows "(100000 - l + 44) div 45 = Suc ((100000 - (l + 45) + 44) div 45)"
proof (cases "l + 45 \<le> 100000")
  case True
  then have "100000 - l + 44 = (100000 - (l + 45) + 44) + 45"
    by linarith
  then show ?thesis
    by (simp only: div_add_self2)
next
  case False
  with assms have a: "45 \<le> 100000 - l + 44" and b: "100000 - l + 44 < 90"
    by linarith+
  have "(100000 - l + 44) div 45 = 1"
    by (rule div_nat_eqI) (use a b in simp_all)
  moreover from False have "100000 - (l + 45) = 0"
    by linarith
  ultimately show ?thesis
    by simp
qed

lemma append_chunks_closed:
  "append_chunks s = s @ concat (replicate ((100000 - length s + 44) div 45) chunk)"
proof (induction s rule: append_chunks.induct)
  case (1 s)
  show ?case
  proof (cases "length s < 100000")
    case True
    have k: "(100000 - length s + 44) div 45 = Suc ((100000 - length (s @ chunk) + 44) div 45)"
      using True by (simp only: length_append length_chunk chunks_step)
    have "append_chunks s = append_chunks (s @ chunk)"
      using True by (subst append_chunks.simps) simp
    also have "\<dots> = (s @ chunk) @ concat (replicate ((100000 - length (s @ chunk) + 44) div 45) chunk)"
      using "1.IH" [OF True] .
    finally show ?thesis
      by (simp add: k)
  next
    case False
    then show ?thesis
      by (subst append_chunks.simps) simp
  qed
qed

lemma length_concat_replicate: "length (concat (replicate k xs)) = k * length xs"
  by (induction k) simp_all

lemma length_2223_chunks: "length (concat (replicate 2223 chunk)) = 100035"
  by (simp only: length_concat_replicate length_chunk)

lemma large100k_closed: "large100k = take 100000 (concat (replicate 2223 chunk))"
proof -
  have "append_chunks [] = concat (replicate 2223 chunk)"
    by (simp add: append_chunks_closed)
  then show ?thesis
    using length_2223_chunks by (simp add: large100k_def resize_def)
qed

lemma length_large100k: "length large100k = 100000"
  using length_2223_chunks by (simp only: large100k_closed length_take)

section \<open>The validator's claims\<close>

subsection \<open>Stage ordering\<close>

text \<open>
  C2. For every byte sequence the validator loads (two arguments, a size that
  \<open>stoull\<close> converts, a file that opens), if \<open>IsValidCompressedBuffer\<close> reports the
  stream invalid, the run ends with exit status 1, its last output is the stage-2 error,
  and no event of the run is a call of \<open>Uncompress\<close>.
\<close>

theorem invalid_stream_never_decompressed:
  assumes "stoull size_arg = Inr expectedSize"
    and "files fs filename = Some compressed"
    and "\<not> IsValidCompressedBuffer c compressed"
  shows "snd (validate_main c fs prog [filename, size_arg]) = Exit 1
       \<and> last (fst (validate_main c fs prog [filename, size_arg])) =
           Cerr ''ERROR: Invalid compressed data format''
       \<and> \<not> list_ex is_Call_Uncompress (fst (validate_main c fs prog [filename, size_arg]))"
  using assms by (simp add: validate_main_def)

text \<open>
  The instance: the three bytes \<open>abc\<close> are not a stream of \<open>stored_codec\<close> (the header
  byte announces 97 bytes, two follow).
\<close>

theorem invalid_stream_never_decompressed_witness:
  "stoull ''3'' = Inr 3
   \<and> files (one_file ''bad.snappy'' ''abc'') ''bad.snappy'' = Some ''abc''
   \<and> \<not> IsValidCompressedBuffer stored_codec ''abc''
   \<and> snd (validate_main stored_codec (one_file ''bad.snappy'' ''abc'') ''validate_snappy''
            [''bad.snappy'', ''3'']) = Exit 1
   \<and> \<not> list_ex is_Call_Uncompress
        (fst (validate_main stored_codec (one_file ''bad.snappy'' ''abc'') ''validate_snappy''
               [''bad.snappy'', ''3'']))"
proof -
  have b: "files (one_file ''bad.snappy'' ''abc'') ''bad.snappy'' = Some ''abc''"
    by (simp add: one_file_def)
  have c: "\<not> IsValidCompressedBuffer stored_codec ''abc''"
    by (simp add: stored_codec_def)
  from invalid_stream_never_decompressed [OF stoull_3 b c, of "''validate_snappy''"] stoull_3 b c
  show ?thesis by simp
qed

subsection \<open>Size mismatch\<close>

text \<open>
  C3. For every stream that passes the structural check and whose declared length
  (the value \<open>GetUncompressedLength\<close> returns) differs from \<open>expectedSize\<close>, the run ends
  with exit status 1, its last output is the stage-3 error, which prints the expected and
  then the declared size, and no event of the run is a call of \<open>Uncompress\<close>.
\<close>

theorem size_mismatch_fails_at_stage_3:
  assumes "stoull size_arg = Inr expectedSize"
    and "files fs filename = Some compressed"
    and "IsValidCompressedBuffer c compressed"
    and "GetUncompressedLength c compressed = Some declared"
    and "declared \<noteq> expectedSize"
  shows "snd (validate_main c fs prog [filename, size_arg]) = Exit 1
       \<and> last (fst (validate_main c fs prog [filename, size_arg])) =
           Cerr (''ERROR: Size mismatch! Expected '' @ to_string expectedSize @
                 '' but got '' @ to_string declared)
       \<and> \<not> list_ex is_Call_Uncompress (fst (validate_main c fs prog [filename, size_arg]))"
  using assms by (simp add: validate_main_def)

text \<open>
  The instance is the spec's negative scenario: the fixture of one hundred \<open>a\<close>, checked
  against the expected size 99. The whole run is shown.
\<close>

theorem size_mismatch_fails_at_stage_3_witness:
  "stoull ''99'' = Inr 99
   \<and> files (one_file ''repeated.snappy'' (Compress stored_codec (replicate 100 CHR ''a'')))
        ''repeated.snappy'' = Some (Compress stored_codec (replicate 100 CHR ''a''))
   \<and> IsValidCompressedBuffer stored_codec (Compress stored_codec (replicate 100 CHR ''a''))
   \<and> GetUncompressedLength stored_codec (Compress stored_codec (replicate 100 CHR ''a'')) =
        Some 100
   \<and> (100::nat) \<noteq> 99
   \<and> validate_main stored_codec
        (one_file ''repeated.snappy'' (Compress stored_codec (replicate 100 CHR ''a'')))
        ''validate_snappy'' [''repeated.snappy'', ''99''] =
      ([Cout ''File: repeated.snappy'',
        Cout ''Compressed size: 101 bytes'',
        Call_IsValidCompressedBuffer (Compress stored_codec (replicate 100 CHR ''a'')),
        Cout (check_mark @ '' Format validation passed''),
        Call_GetUncompressedLength (Compress stored_codec (replicate 100 CHR ''a'')),
        Cout (check_mark @ '' Uncompressed length: 100 bytes''),
        Cerr ''ERROR: Size mismatch! Expected 99 but got 100''], Exit 1)"
proof -
  let ?z = "Compress stored_codec (replicate 100 CHR ''a'')"
  have b: "files (one_file ''repeated.snappy'' ?z) ''repeated.snappy'' = Some ?z"
    by (simp add: one_file_def)
  have c: "IsValidCompressedBuffer stored_codec ?z"
    by (simp add: stored_codec_def)
  have d: "GetUncompressedLength stored_codec ?z = Some 100"
    by (simp add: stored_codec_def)
  have e: "(100::nat) \<noteq> 99" by simp
  have l: "length ?z = 101" by (simp add: stored_codec_def)
  have v: "validate_main stored_codec (one_file ''repeated.snappy'' ?z)
        ''validate_snappy'' [''repeated.snappy'', ''99''] =
      ([Cout ''File: repeated.snappy'',
        Cout ''Compressed size: 101 bytes'',
        Call_IsValidCompressedBuffer ?z,
        Cout (check_mark @ '' Format validation passed''),
        Call_GetUncompressedLength ?z,
        Cout (check_mark @ '' Uncompressed length: 100 bytes''),
        Cerr ''ERROR: Size mismatch! Expected 99 but got 100''], Exit 1)"
    using size_mismatch_fails_at_stage_3 [OF stoull_99 b c d e, of "''validate_snappy''"]
    by (simp add: validate_main_def stoull_99 b c d l to_string_values)
  from stoull_99 b c d e v show ?thesis by blast
qed

subsection \<open>Exit contract\<close>

text \<open>
  C4. For every run of the validator with two arguments of which the second is a size
  \<open>stoull\<close> converts: a file that cannot be opened ends the run with exit status 1 and an
  error naming the file; for a file that opens, the run first prints the file name and the
  compressed size, and then the first stage that fails ends it with exit status 1 and
  that stage's own error as the last output, the two size comparisons printing both sizes
  they compared; when no stage fails the run ends with exit status 0 and the success
  line as the last output.
\<close>

theorem exit_contract:
  assumes "stoull size_arg = Inr expectedSize"
  shows "(files fs filename = None \<longrightarrow>
            validate_main c fs prog [filename, size_arg] =
              ([Cerr (''ERROR: Cannot open file: '' @ filename)], Exit 1))
       \<and> (files fs filename = Some z \<longrightarrow>
            take 2 (fst (validate_main c fs prog [filename, size_arg])) =
              [Cout (''File: '' @ filename),
               Cout (''Compressed size: '' @ to_string (length z) @ '' bytes'')])
       \<and> (files fs filename = Some z \<and> \<not> IsValidCompressedBuffer c z \<longrightarrow>
            snd (validate_main c fs prog [filename, size_arg]) = Exit 1
          \<and> last (fst (validate_main c fs prog [filename, size_arg])) =
              Cerr ''ERROR: Invalid compressed data format'')
       \<and> (files fs filename = Some z \<and> IsValidCompressedBuffer c z
          \<and> GetUncompressedLength c z = None \<longrightarrow>
            snd (validate_main c fs prog [filename, size_arg]) = Exit 1
          \<and> last (fst (validate_main c fs prog [filename, size_arg])) =
              Cerr ''ERROR: Cannot get uncompressed length'')
       \<and> (files fs filename = Some z \<and> IsValidCompressedBuffer c z
          \<and> GetUncompressedLength c z = Some n \<and> n \<noteq> expectedSize \<longrightarrow>
            snd (validate_main c fs prog [filename, size_arg]) = Exit 1
          \<and> last (fst (validate_main c fs prog [filename, size_arg])) =
              Cerr (''ERROR: Size mismatch! Expected '' @ to_string expectedSize @
                    '' but got '' @ to_string n))
       \<and> (files fs filename = Some z \<and> IsValidCompressedBuffer c z
          \<and> GetUncompressedLength c z = Some expectedSize \<and> Uncompress c z = None \<longrightarrow>
            snd (validate_main c fs prog [filename, size_arg]) = Exit 1
          \<and> last (fst (validate_main c fs prog [filename, size_arg])) =
              Cerr ''ERROR: Decompression failed'')
       \<and> (files fs filename = Some z \<and> IsValidCompressedBuffer c z
          \<and> GetUncompressedLength c z = Some expectedSize \<and> Uncompress c z = Some out
          \<and> length out \<noteq> expectedSize \<longrightarrow>
            snd (validate_main c fs prog [filename, size_arg]) = Exit 1
          \<and> last (fst (validate_main c fs prog [filename, size_arg])) =
              Cerr (''ERROR: Decompressed size mismatch! Expected '' @ to_string expectedSize @
                    '' but got '' @ to_string (length out)))
       \<and> (files fs filename = Some z \<and> IsValidCompressedBuffer c z
          \<and> GetUncompressedLength c z = Some expectedSize \<and> Uncompress c z = Some out
          \<and> length out = expectedSize \<longrightarrow>
            snd (validate_main c fs prog [filename, size_arg]) = Exit 0
          \<and> last (fst (validate_main c fs prog [filename, size_arg])) = Cout success_line)"
  using assms
  by (auto simp: validate_main_def Let_def split: option.splits)

text \<open>
  The instance is the spec's end-to-end scenario: the fixture of \<open>Hello, World!\<close> checked
  against the expected size 13 passes every stage; a path with no file fails at the load.
\<close>

theorem exit_contract_witness:
  "stoull ''13'' = Inr 13
   \<and> files (one_file ''hello.snappy'' (Compress stored_codec ''Hello, World!'')) ''hello.snappy''
       = Some (Compress stored_codec ''Hello, World!'')
   \<and> snd (validate_main stored_codec
            (one_file ''hello.snappy'' (Compress stored_codec ''Hello, World!''))
            ''validate_snappy'' [''hello.snappy'', ''13'']) = Exit 0
   \<and> last (fst (validate_main stored_codec
            (one_file ''hello.snappy'' (Compress stored_codec ''Hello, World!''))
            ''validate_snappy'' [''hello.snappy'', ''13''])) = Cout success_line
   \<and> files (one_file ''hello.snappy'' (Compress stored_codec ''Hello, World!'')) ''other.snappy''
       = None
   \<and> validate_main stored_codec
        (one_file ''hello.snappy'' (Compress stored_codec ''Hello, World!''))
        ''validate_snappy'' [''other.snappy'', ''13''] =
       ([Cerr ''ERROR: Cannot open file: other.snappy''], Exit 1)"
proof -
  let ?z = "Compress stored_codec ''Hello, World!''"
  let ?fs = "one_file ''hello.snappy'' ?z"
  have f: "files ?fs ''hello.snappy'' = Some ?z" "files ?fs ''other.snappy'' = None"
    by (simp_all add: one_file_def)
  have s: "IsValidCompressedBuffer stored_codec ?z"
    "GetUncompressedLength stored_codec ?z = Some 13"
    "Uncompress stored_codec ?z = Some ''Hello, World!''"
    "length ''Hello, World!'' = 13"
    by (simp_all add: stored_codec_hello)
  from exit_contract [OF stoull_13, where fs = ?fs and filename = "''hello.snappy''"
      and z = ?z and c = stored_codec and out = "''Hello, World!''"
      and prog = "''validate_snappy''"]
    exit_contract [OF stoull_13, where fs = ?fs and filename = "''other.snappy''"
      and c = stored_codec and prog = "''validate_snappy''"]
    f s stoull_13
  show ?thesis by simp
qed

subsection \<open>The last size comparison\<close>

text \<open>The predicate \<open>is_final_size_error\<close> recognises the message of the last comparison.\<close>

lemma final_size_error_recognised:
  "is_final_size_error (Cerr (''ERROR: Decompressed size mismatch! Expected '' @ a @
                              '' but got '' @ b))"
  by simp

text \<open>
  C9. Under the codec's guarantee that a successful \<open>Uncompress\<close> returns as many bytes
  as \<open>GetUncompressedLength\<close> declares for the same stream, no run of the validator
  prints the error of the last size comparison; and a run in which the declared length
  equals \<open>expectedSize\<close> and decompression succeeds ends with exit status 0.
\<close>

theorem final_size_check_cannot_fail:
  assumes "\<And>bs n out. GetUncompressedLength c bs = Some n \<Longrightarrow> Uncompress c bs = Some out
             \<Longrightarrow> length out = n"
  shows "\<not> list_ex is_final_size_error (fst (validate_main c fs prog args))
       \<and> (stoull size_arg = Inr expectedSize \<and> files fs filename = Some z
          \<and> IsValidCompressedBuffer c z \<and> GetUncompressedLength c z = Some expectedSize
          \<and> Uncompress c z = Some out \<longrightarrow>
            snd (validate_main c fs prog [filename, size_arg]) = Exit 0)"
proof
  show "\<not> list_ex is_final_size_error (fst (validate_main c fs prog args))"
    using assms
    by (auto simp: validate_main_def Let_def split: sum.splits option.splits)
next
  show "stoull size_arg = Inr expectedSize \<and> files fs filename = Some z
          \<and> IsValidCompressedBuffer c z \<and> GetUncompressedLength c z = Some expectedSize
          \<and> Uncompress c z = Some out \<longrightarrow>
            snd (validate_main c fs prog [filename, size_arg]) = Exit 0"
    using assms by (auto simp: validate_main_def)
qed

text \<open>The instance: \<open>stored_codec\<close> keeps the guarantee, and the fixture of
  \<open>Hello, World!\<close> passes.\<close>

theorem final_size_check_cannot_fail_witness:
  "stoull ''13'' = Inr 13
   \<and> IsValidCompressedBuffer stored_codec (Compress stored_codec ''Hello, World!'')
   \<and> GetUncompressedLength stored_codec (Compress stored_codec ''Hello, World!'') = Some 13
   \<and> Uncompress stored_codec (Compress stored_codec ''Hello, World!'') = Some ''Hello, World!''
   \<and> \<not> list_ex is_final_size_error
        (fst (validate_main stored_codec
               (one_file ''hello.snappy'' (Compress stored_codec ''Hello, World!''))
               ''validate_snappy'' [''hello.snappy'', ''13'']))
   \<and> snd (validate_main stored_codec
            (one_file ''hello.snappy'' (Compress stored_codec ''Hello, World!''))
            ''validate_snappy'' [''hello.snappy'', ''13'']) = Exit 0"
proof -
  let ?z = "Compress stored_codec ''Hello, World!''"
  let ?fs = "one_file ''hello.snappy'' ?z"
  have f: "files ?fs ''hello.snappy'' = Some ?z"
    by (simp add: one_file_def)
  have s: "IsValidCompressedBuffer stored_codec ?z"
    "GetUncompressedLength stored_codec ?z = Some 13"
    "Uncompress stored_codec ?z = Some ''Hello, World!''"
    by (simp_all add: stored_codec_hello)
  from final_size_check_cannot_fail [of stored_codec ?fs "''validate_snappy''"
      "[''hello.snappy'', ''13'']" "''13''" 13 "''hello.snappy''" ?z "''Hello, World!''",
      OF stored_codec_lengths]
    f s stoull_13
  show ?thesis by simp
qed

subsection \<open>A size argument that is no number\<close>

text \<open>
  C6 as stated fails. For the argument \<open>abc\<close>, \<open>stoull\<close> throws
  \<^verbatim>\<open>std::invalid_argument\<close>; nothing catches it, so the run prints nothing and ends
  abnormally instead of reporting a diagnostic and returning a status. And arguments that
  are not non-negative integers are accepted: \<open>12abc\<close> as 12, \<open>-1\<close> as \<open>2 ^ 64 - 1\<close>.
\<close>

theorem unparsable_size_counterexample:
  "validate_main stored_codec
     (one_file ''hello.snappy'' (Compress stored_codec ''Hello, World!''))
     ''validate_snappy'' [''hello.snappy'', ''abc''] = ([], Uncaught Invalid_argument)
   \<and> stoull ''12abc'' = Inr 12
   \<and> stoull ''-1'' = Inr 18446744073709551615"
  by (simp add: validate_main_def stoull_def isspace_def isdigit_def digits_value_def)

text \<open>
  C6, amended. For every second argument from which \<open>stoull\<close> converts no number (no
  digit behind optional white space and sign, or a magnitude of \<open>2 ^ 64\<close> or more), the
  validator accepts no value and runs no stage: the exception leaves \<open>main\<close> before the
  file is opened, nothing is printed, and the run ends abnormally.
\<close>

theorem unconvertible_size_terminates:
  assumes "stoull size_arg = Inl e"
  shows "validate_main c fs prog [filename, size_arg] = ([], Uncaught e)"
  using assms by (simp add: validate_main_def)

theorem unconvertible_size_terminates_witness:
  "stoull ''abc'' = Inl Invalid_argument
   \<and> validate_main raw_codec (one_file ''hello.snappy'' ''Hello, World!'')
        ''validate_snappy'' [''hello.snappy'', ''abc''] = ([], Uncaught Invalid_argument)"
  using unconvertible_size_terminates [OF stoull_abc, of raw_codec
      "one_file ''hello.snappy'' ''Hello, World!''" "''validate_snappy''" "''hello.snappy''"]
    stoull_abc
  by simp

section \<open>The generator's claims\<close>

subsection \<open>The ratio in the summary\<close>

text \<open>
  C5 as stated fails. The empty input is not special-cased: its summary prints a ratio
  like every other. With \<open>raw_codec\<close>, whose compressed size for the empty input is 0,
  the division \<open>0 / 0\<close> is performed and printed; with \<open>stored_codec\<close>, whose stream is
  never empty, the ratio \<open>0 / 1\<close> is printed.
\<close>

theorem empty_case_ratio_counterexample:
  "snd (writeTestCase raw_codec ''empty'' [] read_only) =
     [Call_Compress [],
      Cout ''empty:'',
      Cout ''  Input size: 0 bytes'',
      Cout ''  Compressed size: 0 bytes'',
      Cout_ratio ''  Ratio: '' 0 0 ''x'',
      Cout ''  Saved to: Tests/SnappySwiftTests/TestData/empty.snappy'',
      Cout []]
   \<and> snd (writeTestCase stored_codec ''empty'' [] read_only) =
     [Call_Compress [],
      Cout ''empty:'',
      Cout ''  Input size: 0 bytes'',
      Cout ''  Compressed size: 1 bytes'',
      Cout_ratio ''  Ratio: '' 0 1 ''x'',
      Cout ''  Saved to: Tests/SnappySwiftTests/TestData/empty.snappy'',
      Cout []]"
proof -
  have l: "length (Compress raw_codec []) = 0" "length (Compress stored_codec []) = 1"
    by (simp_all add: raw_codec_def stored_codec_def)
  show ?thesis
    by (simp add: writeTestCase_events l to_string_values fixture_path_def del: One_nat_def)
qed

text \<open>
  C5, amended. The summary of every case, the empty input included, reports the ratio
  as input size over compressed size, the fifth event of the case. Nothing is
  special-cased: the division is by zero exactly when the codec returns an empty
  compressed string. The empty input is the first case of the catalog, and every run
  of the generator prints its ratio, 0 over the size of its compressed form.
\<close>

theorem ratio_always_reported:
  "snd (writeTestCase c name input fs) ! 4 =
     Cout_ratio ''  Ratio: '' (length input) (length (Compress c input)) ''x''
   \<and> list_ex divides_by_zero (snd (writeTestCase c name input fs)) = (Compress c input = [])
   \<and> hd test_cases = (''empty'', [])
   \<and> Cout_ratio ''  Ratio: '' 0 (length (Compress c [])) ''x''
       \<in> set (fst (snd (generate_main c fs)))"
proof -
  have "snd (writeTestCases c first_cases fs) =
          snd (writeTestCase c ''empty'' [] fs) @
          snd (writeTestCases c (tl first_cases) (fst (writeTestCase c ''empty'' [] fs)))"
    by (simp add: first_cases_def split_beta)
  then have "Cout_ratio ''  Ratio: '' 0 (length (Compress c [])) ''x''
               \<in> set (snd (writeTestCases c first_cases fs))"
    by (simp add: writeTestCase_events)
  then have "Cout_ratio ''  Ratio: '' 0 (length (Compress c [])) ''x''
               \<in> set (fst (snd (generate_main c fs)))"
    by (simp add: generate_main_events)
  moreover have "hd test_cases = (''empty'', [])"
    by (simp add: test_cases_def first_cases_def)
  ultimately show ?thesis
    by (simp add: writeTestCase_events)
qed

subsection \<open>A fixture that cannot be written\<close>

text \<open>
  C7 as stated fails. On a file system where nothing can be written, the case
  \<open>hello\<close> leaves no fixture file behind, yet its summary is printed in full, with the
  line \<open>Saved to:\<close>, and the generator returns 0.
\<close>

theorem write_failure_counterexample:
  "\<not> writable read_only ''Tests/SnappySwiftTests/TestData/hello.snappy''
   \<and> writeTestCase stored_codec ''hello'' ''Hello, World!'' read_only =
       (read_only,
        [Call_Compress ''Hello, World!'',
         Cout ''hello:'',
         Cout ''  Input size: 13 bytes'',
         Cout ''  Compressed size: 14 bytes'',
         Cout_ratio ''  Ratio: '' 13 14 ''x'',
         Cout ''  Saved to: Tests/SnappySwiftTests/TestData/hello.snappy'',
         Cout []])
   \<and> files read_only ''Tests/SnappySwiftTests/TestData/hello.snappy'' = None
   \<and> snd (snd (generate_main stored_codec read_only)) = Exit 0"
proof -
  have l: "length ''Hello, World!'' = 13" "length (Compress stored_codec ''Hello, World!'') = 14"
    by (simp_all add: stored_codec_def)
  have ev: "snd (writeTestCase stored_codec ''hello'' ''Hello, World!'' read_only) =
        [Call_Compress ''Hello, World!'',
         Cout ''hello:'',
         Cout ''  Input size: 13 bytes'',
         Cout ''  Compressed size: 14 bytes'',
         Cout_ratio ''  Ratio: '' 13 14 ''x'',
         Cout ''  Saved to: Tests/SnappySwiftTests/TestData/hello.snappy'',
         Cout []]"
    by (simp only: writeTestCase_events l to_string_values fixture_path_def) simp
  have st: "fst (writeTestCase stored_codec ''hello'' ''Hello, World!'' read_only) = read_only"
    by (simp add: writeTestCase_filesystem write_file_def read_only_def)
  have "writeTestCase stored_codec ''hello'' ''Hello, World!'' read_only =
       (read_only,
        [Call_Compress ''Hello, World!'',
         Cout ''hello:'',
         Cout ''  Input size: 13 bytes'',
         Cout ''  Compressed size: 14 bytes'',
         Cout_ratio ''  Ratio: '' 13 14 ''x'',
         Cout ''  Saved to: Tests/SnappySwiftTests/TestData/hello.snappy'',
         Cout []])"
    using ev st by (simp only: prod_eq_iff fst_conv snd_conv simp_thms)
  moreover have "\<not> writable read_only ''Tests/SnappySwiftTests/TestData/hello.snappy''"
    "files read_only ''Tests/SnappySwiftTests/TestData/hello.snappy'' = None"
    by (simp_all add: read_only_def)
  ultimately show ?thesis
    using generate_main_outcome [of stored_codec read_only] by blast
qed

text \<open>
  C7, amended. A failure to write a case's fixture is not detected: what a case prints
  is the same on every file system and always holds the line \<open>Saved to:\<close> with the
  fixture's path; when the path cannot be written the file system is left as it was;
  and every run of the generator prints the same events whatever the file system, the
  last being the completion line, and returns 0.
\<close>

theorem write_failure_goes_unnoticed:
  "snd (writeTestCase c name input fs) = snd (writeTestCase c name input fs')
   \<and> Cout (''  Saved to: '' @ fixture_path name) \<in> set (snd (writeTestCase c name input fs))
   \<and> (\<not> writable fs (fixture_path name) \<longrightarrow> fst (writeTestCase c name input fs) = fs)
   \<and> fst (snd (generate_main c fs)) = fst (snd (generate_main c fs'))
   \<and> last (fst (snd (generate_main c fs))) = Cout ''Test data generation complete!''
   \<and> snd (snd (generate_main c fs)) = Exit 0"
proof -
  have "fst (snd (generate_main c fs)) = fst (snd (generate_main c fs'))"
    using writeTestCases_events [of c first_cases fs fs']
    by (simp add: generate_main_events writeTestCase_events)
  moreover have "last (fst (snd (generate_main c fs))) = Cout ''Test data generation complete!''"
    by (simp only: generate_main_events append_assoc [symmetric] last_snoc)
  moreover have "\<not> writable fs (fixture_path name) \<longrightarrow> fst (writeTestCase c name input fs) = fs"
    by (simp add: writeTestCase_filesystem write_file_failed)
  ultimately show ?thesis
    by (simp add: writeTestCase_events generate_main_outcome)
qed

text \<open>The instance: the case \<open>single_byte\<close> where nothing can be written.\<close>

theorem write_failure_goes_unnoticed_witness:
  "\<not> writable read_only (fixture_path ''single_byte'')
   \<and> fst (writeTestCase raw_codec ''single_byte'' ''A'' read_only) = read_only
   \<and> Cout (''  Saved to: '' @ fixture_path ''single_byte'')
       \<in> set (snd (writeTestCase raw_codec ''single_byte'' ''A'' read_only))
   \<and> snd (snd (generate_main raw_codec read_only)) = Exit 0"
proof -
  have w: "\<not> writable read_only (fixture_path ''single_byte'')"
    by (simp add: read_only_def)
  from write_failure_goes_unnoticed [of raw_codec "''single_byte''" "''A''" read_only read_only] w
  show ?thesis by blast
qed

subsection \<open>The shapes of two inputs\<close>

text \<open>
  C8. The input of the case \<open>ascii\<close> holds every byte value from 32 to 126, each once,
  and no other byte. The input of the case \<open>large_100kb\<close> is exactly 100000 bytes long:
  it is the first 100000 bytes of 2223 copies of the phrase, which together are 100035
  bytes, so that the last copy is cut.
\<close>

theorem corpus_shapes:
  "(''ascii'', ascii) \<in> set test_cases
   \<and> distinct ascii
   \<and> set ascii = {b. 32 \<le> (of_char b :: nat) \<and> (of_char b :: nat) \<le> 126}
   \<and> (''large_100kb'', large100k) \<in> set test_cases
   \<and> length large100k = 100000
   \<and> large100k = take 100000 (concat (replicate 2223 chunk))
   \<and> length (concat (replicate 2223 chunk)) = 100035"
proof -
  have "(''ascii'', ascii) \<in> set test_cases" "(''large_100kb'', large100k) \<in> set test_cases"
    by (simp_all add: test_cases_def first_cases_def)
  then show ?thesis
    using distinct_ascii set_ascii length_large100k large100k_closed length_2223_chunks
    by blast
qed


end
